theory Spec2Isabelle
  imports Complex_Main "HOL-Library.Word" "HOL-Library.Multiset"
begin

section \<open>JavaScript values\<close>

text \<open>
  A JavaScript string is a sequence of UTF-16 code units; \<open>length\<close> counts code units,
  as \<open>String.prototype.length\<close> and Mongoose's \<open>minlength\<close>/\<open>maxlength\<close> validators do.
  \<open>lit\<close> embeds an ASCII literal of the source.
\<close>

type_synonym jsstring = "16 word list"

definition lit :: "string \<Rightarrow> jsstring" where
  "lit s = map of_char s"

text \<open>
  A value found in a parsed JSON request body. \<open>Undefined\<close> is an absent field. A number is
  kept as the real it denotes; arrays and objects are only ever observed through their
  truthiness and their \<open>typeof\<close>, so they carry no contents.
\<close>

datatype jsval = Undefined | Null | Boolean bool | Number real | String jsstring | Object

datatype jstype = TUndefined | TObject | TBoolean | TNumber | TString

fun typeof :: "jsval \<Rightarrow> jstype" where
  "typeof Undefined = TUndefined"
| "typeof Null = TObject"
| "typeof (Boolean b) = TBoolean"
| "typeof (Number x) = TNumber"
| "typeof (String s) = TString"
| "typeof Object = TObject"

text \<open>The operand of \<open>!v\<close>: the values JavaScript treats as false.\<close>

fun falsy :: "jsval \<Rightarrow> bool" where
  "falsy Undefined = True"
| "falsy Null = True"
| "falsy (Boolean b) = (b = False)"
| "falsy (Number x) = (x = 0)"
| "falsy (String s) = (s = [])"
| "falsy Object = False"

text \<open>
  A field or header that the source types as \<open>string\<close>: \<open>None\<close> when it is absent.
\<close>

fun falsy_str :: "jsstring option \<Rightarrow> bool" where
  "falsy_str None = True"
| "falsy_str (Some s) = (s = [])"

text \<open>
  \<open>String.prototype.trim\<close> strips the ECMAScript WhiteSpace and LineTerminator code points
  from both ends. All of them lie in the basic plane, so each is one code unit.
\<close>

definition is_ws :: "16 word \<Rightarrow> bool" where
  "is_ws c = (c = 0x0009 \<or> c = 0x000A \<or> c = 0x000B \<or> c = 0x000C \<or> c = 0x000D \<or>
              c = 0x0020 \<or> c = 0x00A0 \<or> c = 0x1680 \<or> (0x2000 \<le> c \<and> c \<le> 0x200A) \<or>
              c = 0x2028 \<or> c = 0x2029 \<or> c = 0x202F \<or> c = 0x205F \<or> c = 0x3000 \<or>
              c = 0xFEFF)"

definition trim :: "jsstring \<Rightarrow> jsstring" where
  "trim s = rev (dropWhile is_ws (rev (dropWhile is_ws s)))"

section \<open>The Job model (models/Job.ts)\<close>

datatype JobStatus = PENDING | COMPLETED | FAILED

type_synonym oid = jsstring

text \<open>
  A stored document: the schema's three paths, the \<open>_id\<close> (kept as the string
  \<open>_id.toString()\<close> under which the routes pass it around), and the two timestamps that
  \<open>timestamps: true\<close> maintains, in milliseconds. \<open>j_result = None\<close> is the schema's
  \<open>default: null\<close>.
\<close>

record job =
  j_id :: oid
  j_prompt :: jsstring
  j_status :: JobStatus
  j_result :: "jsstring option"
  j_createdAt :: nat
  j_updatedAt :: nat

text \<open>
  What one request meets outside the process: the clock, the ObjectId the driver generates
  for a new document, and whether the storage round trip rejects (connection loss, or the
  driver refusing the call).
\<close>

record env =
  now :: nat
  new_id :: oid
  db_rejects :: bool

text \<open>A pending \<open>setTimeout\<close> task of \<open>simulateN8nCallback\<close>.\<close>

record timer =
  t_delay :: nat
  t_jobId :: oid

text \<open>A call of the \<open>Job\<close> model's API, recorded in the order issued.\<close>

datatype call = Create | FindByIdAndUpdate oid | FindById oid | Find

text \<open>
  The state of the service: the collection in insertion order, the scheduled timers, and
  the history of storage calls (a ghost field: nothing reads it).
\<close>

record state =
  docs :: "job list"
  timers :: "timer list"
  calls :: "call list"

definition init :: state where
  "init = \<lparr>docs = [], timers = [], calls = []\<rparr>"

datatype storage_error = ValidationFailed | Rejected

text \<open>
  \<open>Job.create\<close>: the schema's validators for \<open>prompt\<close> (\<open>required\<close>, \<open>minlength: 1\<close>,
  \<open>maxlength: 5000\<close>) run first and throw without writing; then the insert, which the
  store rejects on a duplicate \<open>_id\<close>. \<open>result\<close> takes its default and both timestamps
  are the time of the insert.
\<close>

definition Job_create :: "env \<Rightarrow> jsstring \<Rightarrow> JobStatus \<Rightarrow> state \<Rightarrow> (storage_error + job) \<times> state" where
  "Job_create e p s st =
    (let st1 = st\<lparr>calls := calls st @ [Create]\<rparr> in
     if length p < 1 \<or> 5000 < length p then (Inl ValidationFailed, st1)
     else if db_rejects e \<or> new_id e \<in> set (map j_id (docs st)) then (Inl Rejected, st1)
     else
       (let j = \<lparr>j_id = new_id e, j_prompt = p, j_status = s, j_result = None,
                 j_createdAt = now e, j_updatedAt = now e\<rparr>
        in (Inr j, st1\<lparr>docs := docs st @ [j]\<rparr>)))"

text \<open>The update document of the callback route: \<open>{ status: ..., result: ... }\<close>.\<close>

record update =
  u_status :: JobStatus
  u_result :: jsstring

fun update_first :: "oid \<Rightarrow> (job \<Rightarrow> job) \<Rightarrow> job list \<Rightarrow> job list" where
  "update_first i f [] = []"
| "update_first i f (d # ds) = (if j_id d = i then f d # ds else d # update_first i f ds)"

definition apply_update :: "env \<Rightarrow> update \<Rightarrow> job \<Rightarrow> job" where
  "apply_update e u j = j\<lparr>j_status := u_status u, j_result := Some (u_result u), j_updatedAt := now e\<rparr>"

text \<open>
  \<open>Job.findByIdAndUpdate(id, update, { new: true })\<close>: one document operation that sets
  the given paths together with \<open>updatedAt\<close> and yields the document as updated, or
  \<open>null\<close> when no document has that \<open>_id\<close>.
\<close>

definition Job_findByIdAndUpdate :: "env \<Rightarrow> oid \<Rightarrow> update \<Rightarrow> state \<Rightarrow> (storage_error + job option) \<times> state" where
  "Job_findByIdAndUpdate e i u st =
    (let st1 = st\<lparr>calls := calls st @ [FindByIdAndUpdate i]\<rparr> in
     if db_rejects e then (Inl Rejected, st1)
     else (case find (\<lambda>d. j_id d = i) (docs st) of
             None \<Rightarrow> (Inr None, st1)
           | Some j \<Rightarrow> (Inr (Some (apply_update e u j)),
                        st1\<lparr>docs := update_first i (apply_update e u) (docs st)\<rparr>)))"

definition Job_findById :: "env \<Rightarrow> oid \<Rightarrow> state \<Rightarrow> (storage_error + job option) \<times> state" where
  "Job_findById e i st =
    (let st1 = st\<lparr>calls := calls st @ [FindById i]\<rparr> in
     if db_rejects e then (Inl Rejected, st1)
     else (Inr (find (\<lambda>d. j_id d = i) (docs st)), st1))"

text \<open>
  \<open>Job.find().sort({ createdAt: -1 })\<close>: every document, newest first. The store leaves
  the order of documents with equal \<open>createdAt\<close> open; the model keeps them in insertion
  order.
\<close>

definition sort_newest_first :: "job list \<Rightarrow> job list" where
  "sort_newest_first ds = sort_key (\<lambda>d. - int (j_createdAt d)) ds"

definition Job_find_sort :: "env \<Rightarrow> state \<Rightarrow> (storage_error + job list) \<times> state" where
  "Job_find_sort e st =
    (let st1 = st\<lparr>calls := calls st @ [Find]\<rparr> in
     if db_rejects e then (Inl Rejected, st1)
     else (Inr (sort_newest_first (docs st)), st1))"

section \<open>Requests and responses\<close>

text \<open>
  The parts of a request the routes read. \<open>prompt\<close> is whatever JSON value the body
  holds, since the route tests its type; \<open>jobId\<close> and \<open>result\<close> are typed as the
  callback route declares its body (\<open>{ jobId: string, result: string }\<close>), \<open>None\<close> when
  absent.
\<close>

record request =
  x_webhook_secret :: "jsstring option"
  body_prompt :: jsval
  body_jobId :: "jsstring option"
  body_result :: "jsstring option"
  params_id :: jsstring
  isWebhook :: bool

datatype json = JNull | JStr jsstring | JStatus JobStatus | JDate nat

type_synonym jobject = "(string \<times> json) list"

datatype payload = Obj jobject | Arr "jobject list"

record response =
  code :: nat
  body :: payload

definition error_response :: "nat \<Rightarrow> string \<Rightarrow> response" where
  "error_response c msg = \<lparr>code = c, body = Obj [(''error'', JStr (lit msg))]\<rparr>"

fun json_result :: "jsstring option \<Rightarrow> json" where
  "json_result None = JNull"
| "json_result (Some r) = JStr r"

section \<open>The callback authenticator (middleware/auth.ts)\<close>

text \<open>The process environment: \<open>process.env.WEBHOOK_SECRET\<close>, \<open>None\<close> when unset.\<close>

record config =
  env_WEBHOOK_SECRET :: "jsstring option"

text \<open>\<open>process.env.WEBHOOK_SECRET || 'dev-secret-key'\<close>\<close>

definition SHARED_SECRET :: "config \<Rightarrow> jsstring" where
  "SHARED_SECRET cfg =
    (if falsy_str (env_WEBHOOK_SECRET cfg) then lit ''dev-secret-key''
     else (case env_WEBHOOK_SECRET cfg of Some s \<Rightarrow> s | None \<Rightarrow> lit ''dev-secret-key''))"

text \<open>A middleware either answers the request itself or calls \<open>next()\<close>.\<close>

datatype mw_result = Responded response | Next request

definition validateWebhookSecret :: "config \<Rightarrow> request \<Rightarrow> mw_result" where
  "validateWebhookSecret cfg req =
    (let secret = x_webhook_secret req in
     if falsy_str secret \<or> secret \<noteq> Some (SHARED_SECRET cfg)
     then Responded (error_response 401 ''Unauthorized: Invalid or missing webhook secret'')
     else Next (req\<lparr>isWebhook := True\<rparr>))"

section \<open>The routes (routes/jobs.ts)\<close>

text \<open>The secret the simulated worker presents: the same expression as the authenticator's.\<close>

definition WEBHOOK_SECRET :: "config \<Rightarrow> jsstring" where
  "WEBHOOK_SECRET cfg =
    (if falsy_str (env_WEBHOOK_SECRET cfg) then lit ''dev-secret-key''
     else (case env_WEBHOOK_SECRET cfg of Some s \<Rightarrow> s | None \<Rightarrow> lit ''dev-secret-key''))"

text \<open>\<open>simulateN8nCallback\<close> registers one timer of 5000 ms for the job and returns.\<close>

definition simulateN8nCallback :: "oid \<Rightarrow> state \<Rightarrow> state" where
  "simulateN8nCallback jobId st = st\<lparr>timers := timers st @ [\<lparr>t_delay = 5000, t_jobId = jobId\<rparr>]\<rparr>"

text \<open>
  The request a timer of \<open>simulateN8nCallback\<close> sends when it fires: the route's own
  secret in the header, and as result the text \<open>JSON.stringify\<close> gives for
  \<open>{ success: true, message: `Processed job: ${jobId}`, timestamp: ... }\<close>. \<open>stamp\<close> is
  \<open>new Date().toISOString()\<close> at that moment; neither it nor an ObjectId's string holds
  a character that \<open>JSON.stringify\<close> escapes.
\<close>

definition quoted :: "jsstring \<Rightarrow> jsstring" where
  "quoted s = [0x22] @ s @ [0x22]"

definition mockResult :: "oid \<Rightarrow> jsstring \<Rightarrow> jsstring" where
  "mockResult jobId stamp =
     lit ''{'' @ quoted (lit ''success'') @ lit '':true,'' @
     quoted (lit ''message'') @ lit '':'' @ quoted (lit ''Processed job: '' @ jobId) @ lit '','' @
     quoted (lit ''timestamp'') @ lit '':'' @ quoted stamp @ lit ''}''"

definition timer_request :: "config \<Rightarrow> jsstring \<Rightarrow> timer \<Rightarrow> request" where
  "timer_request cfg stamp t =
     \<lparr>x_webhook_secret = Some (WEBHOOK_SECRET cfg), body_prompt = Undefined,
      body_jobId = Some (t_jobId t), body_result = Some (mockResult (t_jobId t) stamp),
      params_id = [], isWebhook = False\<rparr>"

text \<open>\<open>POST /jobs\<close>\<close>

definition post_jobs :: "env \<Rightarrow> request \<Rightarrow> state \<Rightarrow> response \<times> state" where
  "post_jobs e req st =
    (let prompt = body_prompt req;
         invalid = error_response 400
           ''Invalid request: prompt is required and must be a non-empty string''
     in if falsy prompt \<or> typeof prompt \<noteq> TString then (invalid, st)
        else (case prompt of
                String p \<Rightarrow>
                  if length (trim p) = 0 then (invalid, st)
                  else (case Job_create e (trim p) PENDING st of
                          (Inl err, st1) \<Rightarrow> (error_response 500 ''Failed to create job'', st1)
                        | (Inr job, st1) \<Rightarrow>
                            (\<lparr>code = 201,
                              body = Obj [(''id'', JStr (j_id job)),
                                          (''prompt'', JStr (j_prompt job)),
                                          (''status'', JStatus (j_status job)),
                                          (''createdAt'', JDate (j_createdAt job))]\<rparr>,
                             simulateN8nCallback (j_id job) st1))
              | _ \<Rightarrow> (invalid, st)))"

text \<open>The handler of \<open>POST /jobs/webhook/callback\<close>, behind the authenticator.\<close>

definition post_webhook_callback :: "env \<Rightarrow> request \<Rightarrow> state \<Rightarrow> response \<times> state" where
  "post_webhook_callback e req st =
    (let jobId = body_jobId req; result = body_result req in
     if falsy_str jobId \<or> falsy_str result
     then (error_response 400 ''Invalid request: jobId and result are required'', st)
     else (case (jobId, result) of
             (Some i, Some r) \<Rightarrow>
               (case Job_findByIdAndUpdate e i \<lparr>u_status = COMPLETED, u_result = r\<rparr> st of
                  (Inl err, st1) \<Rightarrow> (error_response 500 ''Failed to update job'', st1)
                | (Inr None, st1) \<Rightarrow> (error_response 404 ''Job not found'', st1)
                | (Inr (Some job), st1) \<Rightarrow>
                    (\<lparr>code = 200,
                      body = Obj [(''id'', JStr (j_id job)),
                                  (''prompt'', JStr (j_prompt job)),
                                  (''status'', JStatus (j_status job)),
                                  (''result'', json_result (j_result job)),
                                  (''updatedAt'', JDate (j_updatedAt job))]\<rparr>,
                     st1))
           | _ \<Rightarrow> (error_response 400 ''Invalid request: jobId and result are required'', st)))"

text \<open>
  The route as registered: \<open>router.post('/webhook/callback', validateWebhookSecret, handler)\<close>.
  The handler runs only when the middleware calls \<open>next()\<close>.
\<close>

definition route_webhook_callback :: "config \<Rightarrow> env \<Rightarrow> request \<Rightarrow> state \<Rightarrow> response \<times> state" where
  "route_webhook_callback cfg e req st =
    (case validateWebhookSecret cfg req of
       Responded r \<Rightarrow> (r, st)
     | Next req' \<Rightarrow> post_webhook_callback e req' st)"

text \<open>The view that \<open>GET /jobs/:id\<close> and \<open>GET /jobs\<close> build from a document.\<close>

definition full_view :: "job \<Rightarrow> jobject" where
  "full_view job =
    [(''id'', JStr (j_id job)),
     (''prompt'', JStr (j_prompt job)),
     (''status'', JStatus (j_status job)),
     (''result'', json_result (j_result job)),
     (''createdAt'', JDate (j_createdAt job)),
     (''updatedAt'', JDate (j_updatedAt job))]"

text \<open>\<open>GET /jobs/:id\<close>\<close>

definition get_job :: "env \<Rightarrow> request \<Rightarrow> state \<Rightarrow> response \<times> state" where
  "get_job e req st =
    (case Job_findById e (params_id req) st of
       (Inl err, st1) \<Rightarrow> (error_response 500 ''Failed to fetch job'', st1)
     | (Inr None, st1) \<Rightarrow> (error_response 404 ''Job not found'', st1)
     | (Inr (Some job), st1) \<Rightarrow> (\<lparr>code = 200, body = Obj (full_view job)\<rparr>, st1))"

text \<open>\<open>GET /jobs\<close>\<close>

definition get_jobs :: "env \<Rightarrow> state \<Rightarrow> response \<times> state" where
  "get_jobs e st =
    (case Job_find_sort e st of
       (Inl err, st1) \<Rightarrow> (error_response 500 ''Failed to fetch jobs'', st1)
     | (Inr jobs, st1) \<Rightarrow> (\<lparr>code = 200, body = Arr (map full_view jobs)\<rparr>, st1))"

section \<open>Runs of the service\<close>

text \<open>
  A request arriving at one of the four routes. A timer of \<open>simulateN8nCallback\<close> that
  fires sends its \<open>timer_request\<close> to the callback route over HTTP like any other client,
  so it is a \<open>WebhookCallback\<close> arrival too.
\<close>

datatype arrival =
    PostJobs request
  | WebhookCallback request
  | GetJob request
  | GetJobs

text \<open>One request handled from arrival to answer with no other request in between.\<close>

fun handle :: "config \<Rightarrow> env \<Rightarrow> arrival \<Rightarrow> state \<Rightarrow> response \<times> state" where
  "handle cfg e (PostJobs req) st = post_jobs e req st"
| "handle cfg e (WebhookCallback req) st = route_webhook_callback cfg e req st"
| "handle cfg e (GetJob req) st = get_job e req st"
| "handle cfg e GetJobs st = get_jobs e st"

text \<open>The states the service can reach from an empty collection, one request at a time.\<close>

inductive reachable :: "config \<Rightarrow> state \<Rightarrow> bool" for cfg :: config where
  reachable_init: "reachable cfg init"
| reachable_handle: "reachable cfg st \<Longrightarrow> reachable cfg (snd (handle cfg e a st))"

text \<open>
  A document whose \<open>status\<close> and \<open>result\<close> agree: pending without a result, or completed
  with one.
\<close>

definition job_ok :: "job \<Rightarrow> bool" where
  "job_ok j = ((j_status j = PENDING \<and> j_result j = None) \<or>
               (j_status j = COMPLETED \<and> j_result j \<noteq> None))"

section \<open>Requests in flight together\<close>

text \<open>
  Every handler is an \<open>async\<close> function with a single \<open>await\<close>, on a call of the \<open>Job\<close>
  model. It runs without interruption up to that call, is suspended while the store
  performs the call, and runs without interruption again from the call's outcome to the
  answer. Other requests may be served while it is suspended. \<open>pending\<close> is the call a
  suspended handler waits for, \<open>reply\<close> what the call gave.
\<close>

datatype pending =
    AwaitCreate jsstring JobStatus
  | AwaitFindByIdAndUpdate oid update
  | AwaitFindById oid
  | AwaitFind

datatype reply = Threw storage_error | Created job | Found "job option" | Listed "job list"

text \<open>Up to the \<open>await\<close>: the answer, when the request is refused before any call.\<close>

fun until_await :: "config \<Rightarrow> arrival \<Rightarrow> response + pending" where
  "until_await cfg (PostJobs req) =
    (let prompt = body_prompt req;
         invalid = error_response 400
           ''Invalid request: prompt is required and must be a non-empty string''
     in if falsy prompt \<or> typeof prompt \<noteq> TString then Inl invalid
        else (case prompt of
                String p \<Rightarrow> if length (trim p) = 0 then Inl invalid
                            else Inr (AwaitCreate (trim p) PENDING)
              | _ \<Rightarrow> Inl invalid))"
| "until_await cfg (WebhookCallback req) =
    (case validateWebhookSecret cfg req of
       Responded r \<Rightarrow> Inl r
     | Next req' \<Rightarrow>
        (let jobId = body_jobId req'; result = body_result req' in
         if falsy_str jobId \<or> falsy_str result
         then Inl (error_response 400 ''Invalid request: jobId and result are required'')
         else (case (jobId, result) of
                 (Some i, Some r) \<Rightarrow>
                   Inr (AwaitFindByIdAndUpdate i \<lparr>u_status = COMPLETED, u_result = r\<rparr>)
               | _ \<Rightarrow> Inl (error_response 400 ''Invalid request: jobId and result are required''))))"
| "until_await cfg (GetJob req) = Inr (AwaitFindById (params_id req))"
| "until_await cfg GetJobs = Inr AwaitFind"

text \<open>The store performs one call, as a single operation on the collection.\<close>

fun perform :: "env \<Rightarrow> pending \<Rightarrow> state \<Rightarrow> reply \<times> state" where
  "perform e (AwaitCreate p s) st =
    (case Job_create e p s st of
       (Inl err, st1) \<Rightarrow> (Threw err, st1)
     | (Inr job, st1) \<Rightarrow> (Created job, st1))"
| "perform e (AwaitFindByIdAndUpdate i u) st =
    (case Job_findByIdAndUpdate e i u st of
       (Inl err, st1) \<Rightarrow> (Threw err, st1)
     | (Inr found, st1) \<Rightarrow> (Found found, st1))"
| "perform e (AwaitFindById i) st =
    (case Job_findById e i st of
       (Inl err, st1) \<Rightarrow> (Threw err, st1)
     | (Inr found, st1) \<Rightarrow> (Found found, st1))"
| "perform e AwaitFind st =
    (case Job_find_sort e st of
       (Inl err, st1) \<Rightarrow> (Threw err, st1)
     | (Inr jobs, st1) \<Rightarrow> (Listed jobs, st1))"

text \<open>
  From the call's outcome to the answer. A thrown error lands in the route's \<open>catch\<close>.
\<close>

fun after_await :: "pending \<Rightarrow> reply \<Rightarrow> state \<Rightarrow> response \<times> state" where
  "after_await (AwaitCreate p s) (Created job) st =
     (\<lparr>code = 201,
       body = Obj [(''id'', JStr (j_id job)),
                   (''prompt'', JStr (j_prompt job)),
                   (''status'', JStatus (j_status job)),
                   (''createdAt'', JDate (j_createdAt job))]\<rparr>,
      simulateN8nCallback (j_id job) st)"
| "after_await (AwaitCreate p s) _ st = (error_response 500 ''Failed to create job'', st)"
| "after_await (AwaitFindByIdAndUpdate i u) (Found None) st =
     (error_response 404 ''Job not found'', st)"
| "after_await (AwaitFindByIdAndUpdate i u) (Found (Some job)) st =
     (\<lparr>code = 200,
       body = Obj [(''id'', JStr (j_id job)),
                   (''prompt'', JStr (j_prompt job)),
                   (''status'', JStatus (j_status job)),
                   (''result'', json_result (j_result job)),
                   (''updatedAt'', JDate (j_updatedAt job))]\<rparr>,
      st)"
| "after_await (AwaitFindByIdAndUpdate i u) _ st = (error_response 500 ''Failed to update job'', st)"
| "after_await (AwaitFindById i) (Found None) st = (error_response 404 ''Job not found'', st)"
| "after_await (AwaitFindById i) (Found (Some job)) st =
     (\<lparr>code = 200, body = Obj (full_view job)\<rparr>, st)"
| "after_await (AwaitFindById i) _ st = (error_response 500 ''Failed to fetch job'', st)"
| "after_await AwaitFind (Listed jobs) st =
     (\<lparr>code = 200, body = Arr (map full_view jobs)\<rparr>, st)"
| "after_await AwaitFind _ st = (error_response 500 ''Failed to fetch jobs'', st)"

text \<open>
  The service with several requests in flight: the state, the handlers suspended on a
  call the store has not performed yet, the handlers whose call has been performed and
  that have not resumed yet, and the answers given so far, each with its request.
\<close>

record system =
  store :: state
  waiting :: "(arrival \<times> pending) list"
  resumable :: "(arrival \<times> pending \<times> reply) list"
  answered :: "(arrival \<times> response) list"

definition idle :: system where
  "idle = \<lparr>store = init, waiting = [], resumable = [], answered = []\<rparr>"

text \<open>
  The interleavings: a request arrives and is refused or suspended on its call; the store
  performs the call of any suspended handler; any handler whose call has been performed
  resumes and answers.
\<close>

inductive runs :: "config \<Rightarrow> system \<Rightarrow> bool" for cfg :: config where
  runs_idle: "runs cfg idle"
| runs_refuse:
    "runs cfg s \<Longrightarrow> until_await cfg a = Inl r \<Longrightarrow>
     runs cfg (s\<lparr>answered := answered s @ [(a, r)]\<rparr>)"
| runs_suspend:
    "runs cfg s \<Longrightarrow> until_await cfg a = Inr p \<Longrightarrow>
     runs cfg (s\<lparr>waiting := waiting s @ [(a, p)]\<rparr>)"
| runs_perform:
    "runs cfg s \<Longrightarrow> (a, p) \<in> set (waiting s) \<Longrightarrow> perform e p (store s) = (rep, st') \<Longrightarrow>
     runs cfg (s\<lparr>store := st', waiting := remove1 (a, p) (waiting s),
                 resumable := resumable s @ [(a, p, rep)]\<rparr>)"
| runs_resume:
    "runs cfg s \<Longrightarrow> (a, p, rep) \<in> set (resumable s) \<Longrightarrow>
     after_await p rep (store s) = (r, st') \<Longrightarrow>
     runs cfg (s\<lparr>store := st', resumable := remove1 (a, p, rep) (resumable s),
                 answered := answered s @ [(a, r)]\<rparr>)"

text \<open>The job views an answer carries.\<close>

fun views :: "payload \<Rightarrow> jobject list" where
  "views (Obj v) = [v]"
| "views (Arr vs) = vs"

text \<open>
  A view that mixes the two sides of a completion: status COMPLETED without a result
  string, or status PENDING with one.
\<close>

fun is_text :: "json option \<Rightarrow> bool" where
  "is_text (Some (JStr s)) = True"
| "is_text _ = False"

definition torn :: "jobject \<Rightarrow> bool" where
  "torn v = ((map_of v ''status'' = Some (JStatus COMPLETED) \<and> \<not> is_text (map_of v ''result'')) \<or>
             (map_of v ''status'' = Some (JStatus PENDING) \<and> is_text (map_of v ''result'')))"

section \<open>Sample inputs\<close>

definition blank_request :: request where
  "blank_request = \<lparr>x_webhook_secret = None, body_prompt = Undefined, body_jobId = None,
                     body_result = None, params_id = [], isWebhook = False\<rparr>"

definition sample_job :: job where
  "sample_job = \<lparr>j_id = lit ''65a0'', j_prompt = lit ''summarize X'', j_status = PENDING,
                  j_result = None, j_createdAt = 1000, j_updatedAt = 1000\<rparr>"

definition sample_state :: state where
  "sample_state = \<lparr>docs = [sample_job], timers = [\<lparr>t_delay = 5000, t_jobId = lit ''65a0''\<rparr>],
                    calls = [Create]\<rparr>"

definition sample_env :: env where
  "sample_env = \<lparr>now = 7000, new_id = lit ''65a1'', db_rejects = False\<rparr>"

definition default_config :: config where
  "default_config = \<lparr>env_WEBHOOK_SECRET = None\<rparr>"

text \<open>The sample job after a first completion.\<close>

definition completed_state :: state where
  "completed_state =
     \<lparr>docs = [sample_job\<lparr>j_status := COMPLETED, j_result := Some (lit ''first''), j_updatedAt := 6000\<rparr>],
      timers = [\<lparr>t_delay = 5000, t_jobId = lit ''65a0''\<rparr>],
      calls = [Create, FindByIdAndUpdate (lit ''65a0'')]\<rparr>"

text \<open>The document that \<open>POST /jobs\<close> stores for a prompt.\<close>

definition created :: "env \<Rightarrow> jsstring \<Rightarrow> job" where
  "created e p = \<lparr>j_id = new_id e, j_prompt = trim p, j_status = PENDING, j_result = None,
                  j_createdAt = now e, j_updatedAt = now e\<rparr>"

text \<open>What keeps the collection well-formed while calls and answers are in flight.\<close>

fun pending_ok :: "pending \<Rightarrow> bool" where
  "pending_ok (AwaitCreate p s) = (s = PENDING)"
| "pending_ok (AwaitFindByIdAndUpdate i u) = (u_status u = COMPLETED)"
| "pending_ok (AwaitFindById i) = True"
| "pending_ok AwaitFind = True"

fun reply_ok :: "reply \<Rightarrow> bool" where
  "reply_ok (Threw err) = True"
| "reply_ok (Created j) = (j_status j = PENDING)"
| "reply_ok (Found None) = True"
| "reply_ok (Found (Some j)) = job_ok j"
| "reply_ok (Listed js) = list_all job_ok js"

definition untorn :: "response \<Rightarrow> bool" where
  "untorn r = list_all (\<lambda>v. \<not> torn v) (views (body r))"

definition system_ok :: "system \<Rightarrow> bool" where
  "system_ok s =
     (list_all job_ok (docs (store s)) \<and>
      list_all (\<lambda>w. pending_ok (snd w)) (waiting s) \<and>
      list_all (\<lambda>w. reply_ok (snd (snd w))) (resumable s) \<and>
      list_all (\<lambda>w. untorn (snd w)) (answered s))"

text \<open>A creation, a read and a completion of the sample job, and the answers to the first two.\<close>

definition create_arrival :: arrival where
  "create_arrival = PostJobs (blank_request\<lparr>body_prompt := String (lit ''summarize X'')\<rparr>)"

definition get_arrival :: arrival where
  "get_arrival = GetJob (blank_request\<lparr>params_id := lit ''65a0''\<rparr>)"

definition complete_arrival :: arrival where
  "complete_arrival =
     WebhookCallback (blank_request\<lparr>x_webhook_secret := Some (lit ''dev-secret-key''),
       body_jobId := Some (lit ''65a0''), body_result := Some (lit ''first'')\<rparr>)"

definition recomplete_arrival :: arrival where
  "recomplete_arrival =
     WebhookCallback (blank_request\<lparr>x_webhook_secret := Some (lit ''dev-secret-key''),
       body_jobId := Some (lit ''65a0''), body_result := Some (lit ''second'')\<rparr>)"

definition created_answer :: response where
  "created_answer =
     \<lparr>code = 201,
      body = Obj [(''id'', JStr (lit ''65a0'')), (''prompt'', JStr (lit ''summarize X'')),
                  (''status'', JStatus PENDING), (''createdAt'', JDate 1000)]\<rparr>"

definition pending_answer :: response where
  "pending_answer =
     \<lparr>code = 200,
      body = Obj [(''id'', JStr (lit ''65a0'')), (''prompt'', JStr (lit ''summarize X'')),
                  (''status'', JStatus PENDING), (''result'', JNull),
                  (''createdAt'', JDate 1000), (''updatedAt'', JDate 1000)]\<rparr>"

text \<open>
  The service after the read's call was performed before the completion's call, and the
  read resumed after it.
\<close>

definition raced :: system where
  "raced =
     \<lparr>store = completed_state\<lparr>calls := [Create, FindById (lit ''65a0''),
                                         FindByIdAndUpdate (lit ''65a0'')]\<rparr>,
      waiting = [],
      resumable = [(complete_arrival,
                    AwaitFindByIdAndUpdate (lit ''65a0'') \<lparr>u_status = COMPLETED, u_result = lit ''first''\<rparr>,
                    Found (Some (sample_job\<lparr>j_status := COMPLETED, j_result := Some (lit ''first''),
                                            j_updatedAt := 6000\<rparr>)))],
      answered = [(create_arrival, created_answer), (get_arrival, pending_answer)]\<rparr>"

section \<open>Basic facts\<close>

lemma lit_Nil_iff: "lit s = [] \<longleftrightarrow> s = []"
  by (simp add: lit_def)

lemma SHARED_SECRET_nonempty: "SHARED_SECRET cfg \<noteq> []"
  by (cases "env_WEBHOOK_SECRET cfg") (simp_all add: SHARED_SECRET_def lit_Nil_iff)

lemma route_authorised:
  "x_webhook_secret req = Some (SHARED_SECRET cfg) \<Longrightarrow>
   route_webhook_callback cfg e req st = post_webhook_callback e (req\<lparr>isWebhook := True\<rparr>) st"
  using SHARED_SECRET_nonempty [of cfg]
  by (simp add: route_webhook_callback_def validateWebhookSecret_def Let_def)

lemma mockResult_nonempty: "mockResult jobId stamp \<noteq> []"
  by (simp add: mockResult_def lit_def)

lemma timer_request_authorised:
  "route_webhook_callback cfg e (timer_request cfg stamp t) st =
     post_webhook_callback e ((timer_request cfg stamp t)\<lparr>isWebhook := True\<rparr>) st"
  by (rule route_authorised) (simp add: timer_request_def WEBHOOK_SECRET_def SHARED_SECRET_def)

lemma find_Some_id: "find (\<lambda>d. j_id d = i) ds = Some j \<Longrightarrow> j_id j = i"
  by (induction ds) (auto split: if_splits)

lemma find_update_first_same:
  "find (\<lambda>d. j_id d = i) ds = Some j \<Longrightarrow> j_id (f j) = i \<Longrightarrow>
   find (\<lambda>d. j_id d = i) (update_first i f ds) = Some (f j)"
  by (induction ds) (auto split: if_splits)

lemma j_id_apply_update [simp]: "j_id (apply_update e u j) = j_id j"
  by (simp add: apply_update_def)

section \<open>The callback authenticator\<close>

text \<open>
  Claim C10. The authenticator's secret is the configured \<open>WEBHOOK_SECRET\<close> when that is a
  non-empty string and \<open>'dev-secret-key'\<close> otherwise, so it is never empty, and it is the
  secret the routes' simulated worker presents; the middleware calls \<open>next()\<close> exactly
  when the header equals that secret, and answers 401 otherwise, in particular for an
  absent and for an empty header.
\<close>

theorem C10_authenticator_accepts_exactly_the_secret:
  "SHARED_SECRET cfg =
     (case env_WEBHOOK_SECRET cfg of
        None \<Rightarrow> lit ''dev-secret-key''
      | Some s \<Rightarrow> if s = [] then lit ''dev-secret-key'' else s)
   \<and> SHARED_SECRET cfg \<noteq> []
   \<and> WEBHOOK_SECRET cfg = SHARED_SECRET cfg
   \<and> validateWebhookSecret cfg req =
       (if x_webhook_secret req = Some (SHARED_SECRET cfg)
        then Next (req\<lparr>isWebhook := True\<rparr>)
        else Responded (error_response 401 ''Unauthorized: Invalid or missing webhook secret''))
   \<and> validateWebhookSecret cfg (req\<lparr>x_webhook_secret := None\<rparr>) =
        Responded (error_response 401 ''Unauthorized: Invalid or missing webhook secret'')
   \<and> validateWebhookSecret cfg (req\<lparr>x_webhook_secret := Some []\<rparr>) =
        Responded (error_response 401 ''Unauthorized: Invalid or missing webhook secret'')"
proof -
  have ne: "SHARED_SECRET cfg \<noteq> []"
    by (rule SHARED_SECRET_nonempty)
  have a: "SHARED_SECRET cfg =
     (case env_WEBHOOK_SECRET cfg of
        None \<Rightarrow> lit ''dev-secret-key''
      | Some s \<Rightarrow> if s = [] then lit ''dev-secret-key'' else s)"
    by (cases "env_WEBHOOK_SECRET cfg") (simp_all add: SHARED_SECRET_def)
  have b: "validateWebhookSecret cfg r =
       (if x_webhook_secret r = Some (SHARED_SECRET cfg)
        then Next (r\<lparr>isWebhook := True\<rparr>)
        else Responded (error_response 401 ''Unauthorized: Invalid or missing webhook secret''))" for r
    using ne by (cases "x_webhook_secret r") (auto simp add: validateWebhookSecret_def Let_def)
  have c: "WEBHOOK_SECRET cfg = SHARED_SECRET cfg"
    by (simp add: WEBHOOK_SECRET_def SHARED_SECRET_def)
  show ?thesis
    using ne a c by (simp add: b)
qed

theorem C10_witness:
  "SHARED_SECRET \<lparr>env_WEBHOOK_SECRET = Some []\<rparr> = lit ''dev-secret-key''
   \<and> validateWebhookSecret \<lparr>env_WEBHOOK_SECRET = Some []\<rparr>
       (blank_request\<lparr>x_webhook_secret := Some (lit ''dev-secret-key'')\<rparr>) =
     Next (blank_request\<lparr>x_webhook_secret := Some (lit ''dev-secret-key''), isWebhook := True\<rparr>)
   \<and> validateWebhookSecret \<lparr>env_WEBHOOK_SECRET = Some []\<rparr>
       (blank_request\<lparr>x_webhook_secret := Some []\<rparr>) =
     Responded (error_response 401 ''Unauthorized: Invalid or missing webhook secret'')"
  using C10_authenticator_accepts_exactly_the_secret
          [of "\<lparr>env_WEBHOOK_SECRET = Some []\<rparr>"
              "blank_request\<lparr>x_webhook_secret := Some (lit ''dev-secret-key'')\<rparr>"]
        C10_authenticator_accepts_exactly_the_secret
          [of "\<lparr>env_WEBHOOK_SECRET = Some []\<rparr>" blank_request]
  by simp

text \<open>
  Claim C3. A callback request whose \<open>x-webhook-secret\<close> header is absent or differs from
  the secret is answered 401 by the middleware, which does not call \<open>next()\<close>: the route
  returns that answer and the state as it was (no document, timer or storage call added),
  whatever the body holds.
\<close>

theorem C3_unauthorised_changes_nothing:
  assumes "x_webhook_secret req \<noteq> Some (SHARED_SECRET cfg)"
  shows "validateWebhookSecret cfg req =
           Responded (error_response 401 ''Unauthorized: Invalid or missing webhook secret'')
       \<and> route_webhook_callback cfg e req st =
           (error_response 401 ''Unauthorized: Invalid or missing webhook secret'', st)"
  using assms by (simp add: route_webhook_callback_def validateWebhookSecret_def Let_def)

theorem C3_witness:
  "route_webhook_callback default_config sample_env
     (blank_request\<lparr>x_webhook_secret := Some (lit ''wrong''), body_jobId := Some (lit ''65a0''),
                     body_result := Some (lit ''ok'')\<rparr>) sample_state =
     (error_response 401 ''Unauthorized: Invalid or missing webhook secret'', sample_state)
   \<and> route_webhook_callback default_config sample_env
     (blank_request\<lparr>body_jobId := Some (lit ''65a0''), body_result := Some (lit ''ok'')\<rparr>)
     sample_state =
     (error_response 401 ''Unauthorized: Invalid or missing webhook secret'', sample_state)"
proof -
  have a: "x_webhook_secret (blank_request\<lparr>x_webhook_secret := Some (lit ''wrong''),
             body_jobId := Some (lit ''65a0''), body_result := Some (lit ''ok'')\<rparr>)
           \<noteq> Some (SHARED_SECRET default_config)"
    by (simp add: SHARED_SECRET_def default_config_def lit_def)
  have b: "x_webhook_secret (blank_request\<lparr>body_jobId := Some (lit ''65a0''),
             body_result := Some (lit ''ok'')\<rparr>)
           \<noteq> Some (SHARED_SECRET default_config)"
    by (simp add: blank_request_def)
  show ?thesis
    using C3_unauthorised_changes_nothing [OF a, of sample_env sample_state]
          C3_unauthorised_changes_nothing [OF b, of sample_env sample_state]
    by simp
qed

section \<open>Completion\<close>



text \<open>
  Claim C4, as amended. For a stored job and a non-empty result string, the handler answers
  200, the stored document then has status COMPLETED, exactly that result string and
  \<open>updatedAt\<close> set to the time of the call, and the answer carries the updated job's
  \<open>id\<close>, \<open>prompt\<close>, \<open>status\<close>, \<open>result\<close> and \<open>updatedAt\<close>; it does not carry
  \<open>createdAt\<close>, so it is not the full view.
\<close>

theorem C4_complete_stores_result_verbatim:
  assumes "find (\<lambda>d. j_id d = i) (docs st) = Some j"
    and "body_jobId req = Some i" and "i \<noteq> []"
    and "body_result req = Some r" and "r \<noteq> []"
    and "\<not> db_rejects e"
  shows "fst (post_webhook_callback e req st) =
           \<lparr>code = 200,
            body = Obj [(''id'', JStr i), (''prompt'', JStr (j_prompt j)),
                        (''status'', JStatus COMPLETED), (''result'', JStr r),
                        (''updatedAt'', JDate (now e))]\<rparr>
       \<and> find (\<lambda>d. j_id d = i) (docs (snd (post_webhook_callback e req st))) =
           Some (j\<lparr>j_status := COMPLETED, j_result := Some r, j_updatedAt := now e\<rparr>)"
proof -
  let ?u = "\<lparr>u_status = COMPLETED, u_result = r\<rparr>"
  have id: "j_id j = i"
    using assms(1) by (rule find_Some_id)
  have upd: "apply_update e ?u j = j\<lparr>j_status := COMPLETED, j_result := Some r, j_updatedAt := now e\<rparr>"
    by (simp add: apply_update_def)
  have "find (\<lambda>d. j_id d = i) (update_first i (apply_update e ?u) (docs st)) =
          Some (apply_update e ?u j)"
    using assms(1) id by (intro find_update_first_same) simp_all
  then show ?thesis
    using assms id upd
    by (simp add: post_webhook_callback_def Job_findByIdAndUpdate_def Let_def)
qed

theorem C4_witness:
  "fst (post_webhook_callback sample_env
         (blank_request\<lparr>body_jobId := Some (lit ''65a0''), body_result := Some (lit ''{ok}'')\<rparr>)
         sample_state) =
     \<lparr>code = 200,
      body = Obj [(''id'', JStr (lit ''65a0'')), (''prompt'', JStr (lit ''summarize X'')),
                  (''status'', JStatus COMPLETED), (''result'', JStr (lit ''{ok}'')),
                  (''updatedAt'', JDate 7000)]\<rparr>
   \<and> find (\<lambda>d. j_id d = lit ''65a0'')
        (docs (snd (post_webhook_callback sample_env
         (blank_request\<lparr>body_jobId := Some (lit ''65a0''), body_result := Some (lit ''{ok}'')\<rparr>)
         sample_state))) =
     Some \<lparr>j_id = lit ''65a0'', j_prompt = lit ''summarize X'', j_status = COMPLETED,
           j_result = Some (lit ''{ok}''), j_createdAt = 1000, j_updatedAt = 7000\<rparr>"
  using C4_complete_stores_result_verbatim [of "lit ''65a0''" sample_state sample_job
      "blank_request\<lparr>body_jobId := Some (lit ''65a0''), body_result := Some (lit ''{ok}'')\<rparr>"
      "lit ''{ok}''" sample_env]
  by (simp add: sample_state_def sample_job_def sample_env_def lit_def)

text \<open>
  The claim as stated fails on the sample job: the answer to its completion is not the
  full view of the updated document, which has a \<open>createdAt\<close> field.
\<close>

theorem C4_counterexample:
  "body (fst (post_webhook_callback sample_env
         (blank_request\<lparr>body_jobId := Some (lit ''65a0''), body_result := Some (lit ''{ok}'')\<rparr>)
         sample_state)) =
     Obj [(''id'', JStr (lit ''65a0'')), (''prompt'', JStr (lit ''summarize X'')),
          (''status'', JStatus COMPLETED), (''result'', JStr (lit ''{ok}'')),
          (''updatedAt'', JDate 7000)]
   \<and> body (fst (post_webhook_callback sample_env
         (blank_request\<lparr>body_jobId := Some (lit ''65a0''), body_result := Some (lit ''{ok}'')\<rparr>)
         sample_state)) \<noteq>
       Obj (full_view (sample_job\<lparr>j_status := COMPLETED, j_result := Some (lit ''{ok}''),
                                  j_updatedAt := 7000\<rparr>))
   \<and> map_of (full_view (sample_job\<lparr>j_status := COMPLETED, j_result := Some (lit ''{ok}''),
                                    j_updatedAt := 7000\<rparr>)) ''createdAt'' = Some (JDate 1000)"
  by (simp add: post_webhook_callback_def Job_findByIdAndUpdate_def Let_def full_view_def
      sample_state_def sample_job_def sample_env_def blank_request_def apply_update_def lit_def)

lemma update_first_absent:
  "find (\<lambda>d. j_id d = i) ds = None \<Longrightarrow> update_first i f ds = ds"
  by (induction ds) (auto split: if_splits)

lemma update_first_twice:
  "(\<And>d. j_id (g d) = j_id d) \<Longrightarrow>
   update_first i f (update_first i g ds) = update_first i (\<lambda>d. f (g d)) ds"
  by (induction ds) auto

lemma apply_update_twice: "apply_update e2 u2 (apply_update e1 u1 j) = apply_update e2 u2 j"
  by (simp add: apply_update_def)

lemma docs_post_webhook_callback:
  assumes "body_jobId req = Some i" and "i \<noteq> []"
    and "body_result req = Some r" and "r \<noteq> []" and "\<not> db_rejects e"
  shows "docs (snd (post_webhook_callback e req st)) =
           update_first i (apply_update e \<lparr>u_status = COMPLETED, u_result = r\<rparr>) (docs st)"
  using assms
  by (cases "find (\<lambda>d. j_id d = i) (docs st)")
     (simp_all add: post_webhook_callback_def Job_findByIdAndUpdate_def Let_def update_first_absent)

text \<open>
  A timer that fires for a stored job passes the authenticator and, when the store
  answers, completes the job with its mock result.
\<close>

lemma timer_completes_job:
  assumes "find (\<lambda>d. j_id d = t_jobId t) (docs st) = Some j"
    and "t_jobId t \<noteq> []" and "\<not> db_rejects e"
  shows "find (\<lambda>d. j_id d = t_jobId t)
           (docs (snd (route_webhook_callback cfg e (timer_request cfg stamp t) st))) =
         Some (j\<lparr>j_status := COMPLETED, j_result := Some (mockResult (t_jobId t) stamp),
                 j_updatedAt := now e\<rparr>)"
proof -
  let ?f = "apply_update e \<lparr>u_status = COMPLETED, u_result = mockResult (t_jobId t) stamp\<rparr>"
  have "docs (snd (route_webhook_callback cfg e (timer_request cfg stamp t) st)) =
          update_first (t_jobId t) ?f (docs st)"
    unfolding timer_request_authorised using assms(2,3)
    by (intro docs_post_webhook_callback) (simp_all add: timer_request_def mockResult_nonempty)
  moreover have "find (\<lambda>d. j_id d = t_jobId t) (update_first (t_jobId t) ?f (docs st)) = Some (?f j)"
    using assms(1) find_Some_id [OF assms(1)] by (intro find_update_first_same) simp_all
  ultimately show ?thesis
    by (simp add: apply_update_def)
qed

text \<open>
  Claim C7. Completing a job that is already COMPLETED or FAILED is not rejected: the
  handler answers 200, the document has status COMPLETED and the newly supplied result in
  place of the old one. Of two completions of the same job the later one decides the
  documents (last write wins); repeating one completion changes nothing further.
\<close>

theorem C7_recompletion_overwrites:
  assumes "find (\<lambda>d. j_id d = i) (docs st) = Some j"
    and "j_status j = COMPLETED \<or> j_status j = FAILED"
    and "body_jobId req = Some i" and "i \<noteq> []"
    and "body_result req = Some r" and "r \<noteq> []" and "\<not> db_rejects e"
    and "body_jobId req2 = Some i"
    and "body_result req2 = Some r2" and "r2 \<noteq> []" and "\<not> db_rejects e2"
  shows "code (fst (post_webhook_callback e req st)) = 200
       \<and> find (\<lambda>d. j_id d = i) (docs (snd (post_webhook_callback e req st))) =
           Some (j\<lparr>j_status := COMPLETED, j_result := Some r, j_updatedAt := now e\<rparr>)
       \<and> docs (snd (post_webhook_callback e2 req2 (snd (post_webhook_callback e req st)))) =
           docs (snd (post_webhook_callback e2 req2 st))"
proof -
  let ?u = "\<lparr>u_status = COMPLETED, u_result = r\<rparr>"
  have id: "j_id j = i"
    using assms(1) by (rule find_Some_id)
  have upd: "apply_update e ?u j = j\<lparr>j_status := COMPLETED, j_result := Some r, j_updatedAt := now e\<rparr>"
    by (simp add: apply_update_def)
  have found: "find (\<lambda>d. j_id d = i) (update_first i (apply_update e ?u) (docs st)) =
          Some (apply_update e ?u j)"
    using assms(1) id by (intro find_update_first_same) simp_all
  have first: "code (fst (post_webhook_callback e req st)) = 200
       \<and> find (\<lambda>d. j_id d = i) (docs (snd (post_webhook_callback e req st))) =
           Some (j\<lparr>j_status := COMPLETED, j_result := Some r, j_updatedAt := now e\<rparr>)"
    using assms(1,3-7) id upd found
    by (simp add: post_webhook_callback_def Job_findByIdAndUpdate_def Let_def)
  have "docs (snd (post_webhook_callback e2 req2 (snd (post_webhook_callback e req st)))) =
          update_first i (apply_update e2 \<lparr>u_status = COMPLETED, u_result = r2\<rparr>)
            (update_first i (apply_update e ?u) (docs st))"
    using assms by (simp add: docs_post_webhook_callback)
  also have "\<dots> = update_first i (apply_update e2 \<lparr>u_status = COMPLETED, u_result = r2\<rparr>) (docs st)"
    by (simp add: update_first_twice apply_update_twice)
  also have "\<dots> = docs (snd (post_webhook_callback e2 req2 st))"
    using assms by (simp add: docs_post_webhook_callback)
  finally show ?thesis
    using first by simp
qed

theorem C7_witness:
  "code (fst (post_webhook_callback sample_env
      (blank_request\<lparr>body_jobId := Some (lit ''65a0''), body_result := Some (lit ''second'')\<rparr>)
      completed_state)) = 200
   \<and> docs (snd (post_webhook_callback sample_env
      (blank_request\<lparr>body_jobId := Some (lit ''65a0''), body_result := Some (lit ''second'')\<rparr>)
      completed_state)) =
     [\<lparr>j_id = lit ''65a0'', j_prompt = lit ''summarize X'', j_status = COMPLETED,
       j_result = Some (lit ''second''), j_createdAt = 1000, j_updatedAt = 7000\<rparr>]"
proof -
  let ?req = "blank_request\<lparr>body_jobId := Some (lit ''65a0''), body_result := Some (lit ''second'')\<rparr>"
  let ?j = "sample_job\<lparr>j_status := COMPLETED, j_result := Some (lit ''first''), j_updatedAt := 6000\<rparr>"
  have f: "find (\<lambda>d. j_id d = lit ''65a0'') (docs completed_state) = Some ?j"
    by (simp add: completed_state_def sample_job_def)
  have t: "j_status ?j = COMPLETED \<or> j_status ?j = FAILED"
    by simp
  have "docs (snd (post_webhook_callback sample_env ?req completed_state)) =
          docs (snd (post_webhook_callback sample_env ?req
                  (snd (post_webhook_callback sample_env ?req completed_state))))"
    using C7_recompletion_overwrites [OF f t, of ?req "lit ''second''" sample_env ?req "lit ''second''" sample_env]
    by (simp add: lit_def sample_env_def)
  moreover have "code (fst (post_webhook_callback sample_env ?req completed_state)) = 200
      \<and> find (\<lambda>d. j_id d = lit ''65a0'') (docs (snd (post_webhook_callback sample_env ?req completed_state))) =
           Some (?j\<lparr>j_status := COMPLETED, j_result := Some (lit ''second''), j_updatedAt := now sample_env\<rparr>)"
    using C7_recompletion_overwrites [OF f t, of ?req "lit ''second''" sample_env ?req "lit ''second''" sample_env]
    by (simp add: lit_def sample_env_def)
  ultimately show ?thesis
    by (simp add: post_webhook_callback_def Job_findByIdAndUpdate_def Let_def
      completed_state_def sample_job_def sample_env_def blank_request_def apply_update_def lit_def)
qed

section \<open>Creation\<close>

lemma post_jobs_invalid:
  "(\<forall>p. body_prompt req = String p \<longrightarrow> trim p = []) \<Longrightarrow>
   post_jobs e req st =
     (error_response 400 ''Invalid request: prompt is required and must be a non-empty string'', st)"
  by (cases "body_prompt req") (simp_all add: post_jobs_def Let_def)

lemma trim_nonempty: "trim p \<noteq> [] \<Longrightarrow> p \<noteq> []"
  by (auto simp add: trim_def)

lemma post_jobs_string:
  assumes "body_prompt req = String p" and "trim p \<noteq> []"
  shows "post_jobs e req st =
     (if 5000 < length (trim p) \<or> db_rejects e \<or> new_id e \<in> j_id ` set (docs st)
      then (error_response 500 ''Failed to create job'', st\<lparr>calls := calls st @ [Create]\<rparr>)
      else (\<lparr>code = 201,
             body = Obj [(''id'', JStr (new_id e)), (''prompt'', JStr (trim p)),
                         (''status'', JStatus PENDING), (''createdAt'', JDate (now e))]\<rparr>,
            \<lparr>docs = docs st @ [\<lparr>j_id = new_id e, j_prompt = trim p, j_status = PENDING,
                                 j_result = None, j_createdAt = now e, j_updatedAt = now e\<rparr>],
             timers = timers st @ [\<lparr>t_delay = 5000, t_jobId = new_id e\<rparr>],
             calls = calls st @ [Create]\<rparr>))"
proof -
  have "p \<noteq> []" using assms(2) by (rule trim_nonempty)
  moreover have "0 < length (trim p)" using assms(2) by simp
  ultimately show ?thesis
    using assms
    by (auto simp add: post_jobs_def Job_create_def simulateN8nCallback_def Let_def error_response_def)
qed

text \<open>
  Claim C9. \<open>POST /jobs\<close> registers a timer only on the path that answers 201, where the
  document has been stored: then exactly one timer, for the new job's id, is added. On
  every other answer (400 for an invalid prompt, 500 when \<open>Job.create\<close> throws) neither
  the timers nor the documents change.
\<close>

theorem C9_one_task_only_after_persisting:
  "(code (fst (post_jobs e req st)) = 201 \<longrightarrow>
      (\<exists>job. docs (snd (post_jobs e req st)) = docs st @ [job] \<and> j_id job = new_id e \<and>
             timers (snd (post_jobs e req st)) = timers st @ [\<lparr>t_delay = 5000, t_jobId = j_id job\<rparr>]))
   \<and> (code (fst (post_jobs e req st)) \<noteq> 201 \<longrightarrow>
        timers (snd (post_jobs e req st)) = timers st \<and> docs (snd (post_jobs e req st)) = docs st)"
proof (cases "\<exists>p. body_prompt req = String p \<and> trim p \<noteq> []")
  case True
  then obtain p where p: "body_prompt req = String p" "trim p \<noteq> []" by blast
  show ?thesis
    unfolding post_jobs_string [OF p] by (simp add: error_response_def)
next
  case False
  then have "\<forall>p. body_prompt req = String p \<longrightarrow> trim p = []" by blast
  then show ?thesis
    by (simp add: post_jobs_invalid error_response_def)
qed

theorem C9_witness:
  "docs (snd (post_jobs sample_env (blank_request\<lparr>body_prompt := String (lit '' next job '')\<rparr>) sample_state)) =
     [sample_job, \<lparr>j_id = lit ''65a1'', j_prompt = lit ''next job'', j_status = PENDING,
                   j_result = None, j_createdAt = 7000, j_updatedAt = 7000\<rparr>]
   \<and> timers (snd (post_jobs sample_env (blank_request\<lparr>body_prompt := String (lit '' next job '')\<rparr>) sample_state)) =
     [\<lparr>t_delay = 5000, t_jobId = lit ''65a0''\<rparr>, \<lparr>t_delay = 5000, t_jobId = lit ''65a1''\<rparr>]
   \<and> timers (snd (post_jobs (sample_env\<lparr>db_rejects := True\<rparr>)
        (blank_request\<lparr>body_prompt := String (lit '' next job '')\<rparr>) sample_state)) =
     [\<lparr>t_delay = 5000, t_jobId = lit ''65a0''\<rparr>]
   \<and> timers (snd (post_jobs sample_env (blank_request\<lparr>body_prompt := String (lit ''  '')\<rparr>) sample_state)) =
     [\<lparr>t_delay = 5000, t_jobId = lit ''65a0''\<rparr>]"
proof -
  let ?ok = "blank_request\<lparr>body_prompt := String (lit '' next job '')\<rparr>"
  have a: "code (fst (post_jobs sample_env ?ok sample_state)) = 201"
    by (simp add: post_jobs_def Job_create_def simulateN8nCallback_def Let_def
        sample_env_def sample_state_def sample_job_def lit_def trim_def is_ws_def)
  have b: "code (fst (post_jobs (sample_env\<lparr>db_rejects := True\<rparr>) ?ok sample_state)) \<noteq> 201"
    by (simp add: post_jobs_def Job_create_def simulateN8nCallback_def Let_def error_response_def
        sample_env_def sample_state_def sample_job_def lit_def trim_def is_ws_def)
  have c: "code (fst (post_jobs sample_env (blank_request\<lparr>body_prompt := String (lit ''  '')\<rparr>) sample_state)) \<noteq> 201"
    by (simp add: post_jobs_def Let_def error_response_def lit_def trim_def is_ws_def)
  show ?thesis
    using a b c
      C9_one_task_only_after_persisting [of sample_env ?ok sample_state]
      C9_one_task_only_after_persisting [of "sample_env\<lparr>db_rejects := True\<rparr>" ?ok sample_state]
      C9_one_task_only_after_persisting [of sample_env "blank_request\<lparr>body_prompt := String (lit ''  '')\<rparr>" sample_state]
    by (auto simp add: sample_env_def sample_state_def sample_job_def
        post_jobs_def Job_create_def simulateN8nCallback_def Let_def lit_def trim_def is_ws_def)
qed

text \<open>
  Claim C2, where the code departs from it. A prompt whose trimmed length exceeds 5000
  passes the route's own validation, \<open>Job.create\<close> throws on the schema's
  \<open>maxlength\<close>, and the route's \<open>catch\<close> answers 500 \<open>Failed to create job\<close> rather
  than 400. No document is stored.
\<close>

theorem C2_overlong_prompt_answers_500:
  assumes "body_prompt req = String p" and "5000 < length (trim p)"
  shows "post_jobs e req st =
           (error_response 500 ''Failed to create job'', st\<lparr>calls := calls st @ [Create]\<rparr>)
       \<and> code (fst (post_jobs e req st)) \<noteq> 400"
proof -
  have "trim p \<noteq> []" using assms(2) by auto
  then show ?thesis
    using assms by (simp add: post_jobs_string error_response_def)
qed

theorem C2_witness:
  "post_jobs sample_env (blank_request\<lparr>body_prompt := String (replicate 5001 0x61)\<rparr>) sample_state =
     (error_response 500 ''Failed to create job'', sample_state\<lparr>calls := [Create, Create]\<rparr>)"
proof -
  have t: "trim (replicate 5001 0x61) = replicate 5001 0x61"
    by (simp add: trim_def is_ws_def dropWhile_replicate)
  show ?thesis
    using C2_overlong_prompt_answers_500
      [of "blank_request\<lparr>body_prompt := String (replicate 5001 0x61)\<rparr>" "replicate 5001 0x61"
          sample_env sample_state]
    by (simp add: t sample_state_def)
qed

section \<open>Listing\<close>





section \<open>What a request does to the collection\<close>

lemma docs_post_jobs:
  "docs (snd (post_jobs e req st)) = docs st \<or>
   (\<exists>p. docs (snd (post_jobs e req st)) = docs st @ [created e p] \<and>
        new_id e \<notin> j_id ` set (docs st))"
proof (cases "\<exists>p. body_prompt req = String p \<and> trim p \<noteq> []")
  case True
  then obtain p where p: "body_prompt req = String p" "trim p \<noteq> []" by blast
  show ?thesis
    unfolding post_jobs_string [OF p] by (auto simp add: created_def)
next
  case False
  then have "\<forall>p. body_prompt req = String p \<longrightarrow> trim p = []" by blast
  then show ?thesis
    by (simp add: post_jobs_invalid)
qed

lemma docs_route_webhook_callback:
  "docs (snd (route_webhook_callback cfg e req st)) = docs st \<or>
   (\<exists>i r. docs (snd (route_webhook_callback cfg e req st)) =
      update_first i (apply_update e \<lparr>u_status = COMPLETED, u_result = r\<rparr>) (docs st))"
  by (auto simp add: route_webhook_callback_def validateWebhookSecret_def
      post_webhook_callback_def Job_findByIdAndUpdate_def Let_def
      split: option.splits)

lemma docs_get_job: "docs (snd (get_job e req st)) = docs st"
  by (simp add: get_job_def Job_findById_def Let_def split: option.splits)

lemma docs_get_jobs: "docs (snd (get_jobs e st)) = docs st"
  by (simp add: get_jobs_def Job_find_sort_def Let_def)

lemma docs_handle:
  "docs (snd (handle cfg e a st)) = docs st \<or>
   (\<exists>p. docs (snd (handle cfg e a st)) = docs st @ [created e p] \<and>
          new_id e \<notin> j_id ` set (docs st)) \<or>
   (\<exists>i r. docs (snd (handle cfg e a st)) =
      update_first i (apply_update e \<lparr>u_status = COMPLETED, u_result = r\<rparr>) (docs st))"
proof (cases a)
  case (PostJobs req)
  then show ?thesis using docs_post_jobs [of e req st] by auto
next
  case (WebhookCallback req)
  then show ?thesis using docs_route_webhook_callback [of cfg e req st] by fastforce
next
  case (GetJob req)
  then show ?thesis by (simp add: docs_get_job)
next
  case GetJobs
  then show ?thesis by (simp add: docs_get_jobs)
qed

lemma job_ok_created: "job_ok (created e p)"
  by (simp add: job_ok_def created_def)

lemma job_ok_completed: "job_ok (apply_update e \<lparr>u_status = COMPLETED, u_result = r\<rparr> j)"
  by (simp add: job_ok_def apply_update_def)

lemma set_update_first: "set (update_first i f ds) \<subseteq> set ds \<union> f ` set ds"
  by (induction ds) auto

lemma ids_update_first:
  "(\<And>d. j_id (f d) = j_id d) \<Longrightarrow> map j_id (update_first i f ds) = map j_id ds"
  by (induction ds) auto

lemma update_first_keeps:
  "j \<in> set ds \<Longrightarrow> j \<in> set (update_first i f ds) \<or> f j \<in> set (update_first i f ds)"
  by (induction ds) auto

lemma handle_preserves:
  assumes "\<forall>j\<in>set (docs st). job_ok j" and "distinct (map j_id (docs st))"
  shows "(\<forall>j\<in>set (docs (snd (handle cfg e a st))). job_ok j) \<and>
         distinct (map j_id (docs (snd (handle cfg e a st))))"
  using docs_handle [of cfg e a st]
proof (elim disjE exE conjE)
  assume "docs (snd (handle cfg e a st)) = docs st"
  then show ?thesis using assms by simp
next
  fix p
  assume "docs (snd (handle cfg e a st)) = docs st @ [created e p]"
    and "new_id e \<notin> j_id ` set (docs st)"
  then show ?thesis using assms by (auto simp add: job_ok_created) (simp add: created_def)
next
  fix i r
  assume d: "docs (snd (handle cfg e a st)) =
      update_first i (apply_update e \<lparr>u_status = COMPLETED, u_result = r\<rparr>) (docs st)"
  have "job_ok j" if "j \<in> set (docs (snd (handle cfg e a st)))" for j
    using that assms(1) set_update_first [of i "apply_update e \<lparr>u_status = COMPLETED, u_result = r\<rparr>" "docs st"]
    unfolding d by (auto simp add: job_ok_completed)
  then show ?thesis
    using assms(2) by (simp add: d ids_update_first)
qed

lemma reachable_invariant:
  "reachable cfg st \<Longrightarrow> (\<forall>j\<in>set (docs st). job_ok j) \<and> distinct (map j_id (docs st))"
proof (induction rule: reachable.induct)
  case reachable_init
  show ?case by (simp add: init_def)
next
  case (reachable_handle st e a)
  then show ?case using handle_preserves [of st cfg e a] by blast
qed

text \<open>
  Run one after the other, with nothing in between, the three phases of a handler are the
  handler.
\<close>

lemma handle_phases:
  "handle cfg e a st =
     (case until_await cfg a of
        Inl r \<Rightarrow> (r, st)
      | Inr p \<Rightarrow> (case perform e p st of (rep, st1) \<Rightarrow> after_await p rep st1))"
proof (cases a)
  case (PostJobs req)
  then show ?thesis
    by (cases "body_prompt req")
       (simp_all add: post_jobs_def Let_def split: prod.splits sum.splits)
next
  case (WebhookCallback req)
  then show ?thesis
    by (cases "body_jobId req"; cases "body_result req")
       (simp_all add: route_webhook_callback_def post_webhook_callback_def validateWebhookSecret_def
          Let_def split: prod.splits sum.splits option.splits)
next
  case (GetJob req)
  then show ?thesis
    by (simp add: get_job_def split: prod.splits sum.splits option.splits)
next
  case GetJobs
  then show ?thesis
    by (simp add: get_jobs_def split: prod.splits sum.splits)
qed

section \<open>Sample runs\<close>

lemma reachable_sample_state: "reachable default_config sample_state"
proof -
  have "snd (handle default_config \<lparr>now = 1000, new_id = lit ''65a0'', db_rejects = False\<rparr>
               create_arrival init)
        = sample_state"
    by (simp add: create_arrival_def post_jobs_def Job_create_def simulateN8nCallback_def Let_def
        init_def blank_request_def sample_state_def sample_job_def lit_def trim_def is_ws_def)
  then show ?thesis
    using reachable_handle [OF reachable_init, of default_config] by metis
qed

lemma reachable_completed_state: "reachable default_config completed_state"
proof -
  have "snd (handle default_config \<lparr>now = 6000, new_id = [], db_rejects = False\<rparr>
               complete_arrival sample_state)
        = completed_state"
    by (simp add: complete_arrival_def route_webhook_callback_def validateWebhookSecret_def
        SHARED_SECRET_def post_webhook_callback_def Job_findByIdAndUpdate_def apply_update_def
        Let_def default_config_def blank_request_def completed_state_def sample_state_def
        sample_job_def lit_def)
  then show ?thesis
    using reachable_handle [OF reachable_sample_state] by metis
qed

lemma runs_raced: "runs default_config raced"
proof -
  let ?create = "AwaitCreate (lit ''summarize X'') PENDING"
  let ?find = "AwaitFindById (lit ''65a0'')"
  let ?update = "AwaitFindByIdAndUpdate (lit ''65a0'') \<lparr>u_status = COMPLETED, u_result = lit ''first''\<rparr>"
  let ?done = "sample_job\<lparr>j_status := COMPLETED, j_result := Some (lit ''first''), j_updatedAt := 6000\<rparr>"
  have 1: "runs default_config
             \<lparr>store = init, waiting = [(create_arrival, ?create)], resumable = [], answered = []\<rparr>"
    using runs_suspend [OF runs_idle, of default_config create_arrival ?create]
    by (simp add: idle_def create_arrival_def blank_request_def Let_def lit_def trim_def is_ws_def)
  have 2: "runs default_config
             \<lparr>store = \<lparr>docs = [sample_job], timers = [], calls = [Create]\<rparr>, waiting = [],
              resumable = [(create_arrival, ?create, Created sample_job)], answered = []\<rparr>"
    using runs_perform [OF 1, of create_arrival ?create
        "\<lparr>now = 1000, new_id = lit ''65a0'', db_rejects = False\<rparr>" "Created sample_job"
        "\<lparr>docs = [sample_job], timers = [], calls = [Create]\<rparr>"]
    by (simp add: Job_create_def Let_def init_def sample_job_def lit_def)
  have 3: "runs default_config
             \<lparr>store = sample_state, waiting = [], resumable = [],
              answered = [(create_arrival, created_answer)]\<rparr>"
    using runs_resume [OF 2, of create_arrival ?create "Created sample_job" created_answer sample_state]
    by (simp add: simulateN8nCallback_def sample_state_def sample_job_def created_answer_def)
  have 4: "runs default_config
             \<lparr>store = sample_state, waiting = [(get_arrival, ?find)], resumable = [],
              answered = [(create_arrival, created_answer)]\<rparr>"
    using runs_suspend [OF 3, of get_arrival ?find]
    by (simp add: get_arrival_def blank_request_def)
  have 5: "runs default_config
             \<lparr>store = sample_state, waiting = [(get_arrival, ?find), (complete_arrival, ?update)],
              resumable = [], answered = [(create_arrival, created_answer)]\<rparr>"
    using runs_suspend [OF 4, of complete_arrival ?update]
    by (simp add: complete_arrival_def blank_request_def validateWebhookSecret_def
        SHARED_SECRET_def default_config_def Let_def lit_def)
  have 6: "runs default_config
             \<lparr>store = sample_state\<lparr>calls := [Create, FindById (lit ''65a0'')]\<rparr>,
              waiting = [(complete_arrival, ?update)],
              resumable = [(get_arrival, ?find, Found (Some sample_job))],
              answered = [(create_arrival, created_answer)]\<rparr>"
    using runs_perform [OF 5, of get_arrival ?find
        "\<lparr>now = 5900, new_id = [], db_rejects = False\<rparr>" "Found (Some sample_job)"
        "sample_state\<lparr>calls := [Create, FindById (lit ''65a0'')]\<rparr>"]
    by (simp add: Job_findById_def Let_def sample_state_def sample_job_def
        get_arrival_def complete_arrival_def)
  have 7: "runs default_config
             \<lparr>store = completed_state\<lparr>calls := [Create, FindById (lit ''65a0''),
                                                 FindByIdAndUpdate (lit ''65a0'')]\<rparr>,
              waiting = [],
              resumable = [(get_arrival, ?find, Found (Some sample_job)),
                           (complete_arrival, ?update, Found (Some ?done))],
              answered = [(create_arrival, created_answer)]\<rparr>"
    using runs_perform [OF 6, of complete_arrival ?update
        "\<lparr>now = 6000, new_id = [], db_rejects = False\<rparr>" "Found (Some ?done)"
        "completed_state\<lparr>calls := [Create, FindById (lit ''65a0''),
                                     FindByIdAndUpdate (lit ''65a0'')]\<rparr>"]
    by (simp add: Job_findByIdAndUpdate_def apply_update_def Let_def sample_state_def
        completed_state_def sample_job_def)
  show ?thesis
    using runs_resume [OF 7, of get_arrival ?find "Found (Some sample_job)" pending_answer
        "completed_state\<lparr>calls := [Create, FindById (lit ''65a0''),
                                     FindByIdAndUpdate (lit ''65a0'')]\<rparr>"]
    by (simp add: raced_def pending_answer_def full_view_def sample_job_def
        get_arrival_def complete_arrival_def)
qed

section \<open>The lifecycle of a job\<close>

text \<open>
  Claim C1, as amended. In every state the service reaches and for every request: a job
  the request adds has status PENDING and no result; a job already stored is still stored
  under its id, with the status it had or, if that was PENDING, possibly COMPLETED (no
  other change of status occurs, and FAILED is never produced); and every stored job is
  PENDING without a result or COMPLETED with one, so the result is set when the status
  becomes COMPLETED. Nothing keeps a later completion from replacing the result.
\<close>

theorem C1_status_and_result_lifecycle:
  assumes "reachable cfg st"
  shows "(\<forall>j'\<in>set (docs (snd (handle cfg e a st))).
            j_id j' \<notin> j_id ` set (docs st) \<longrightarrow> j_status j' = PENDING \<and> j_result j' = None)
       \<and> (\<forall>j\<in>set (docs st). \<exists>j'\<in>set (docs (snd (handle cfg e a st))).
            j_id j' = j_id j \<and>
            (j_status j' = j_status j \<or> (j_status j = PENDING \<and> j_status j' = COMPLETED)))
       \<and> (\<forall>j'\<in>set (docs (snd (handle cfg e a st))).
            (j_status j' = PENDING \<and> j_result j' = None) \<or>
            (j_status j' = COMPLETED \<and> j_result j' \<noteq> None))
       \<and> distinct (map j_id (docs (snd (handle cfg e a st))))"
proof -
  have inv: "\<forall>j\<in>set (docs st). job_ok j" "distinct (map j_id (docs st))"
    using reachable_invariant [OF assms] by simp_all
  have inv': "\<forall>j\<in>set (docs (snd (handle cfg e a st))). job_ok j"
             "distinct (map j_id (docs (snd (handle cfg e a st))))"
    using handle_preserves [OF inv, of cfg e a] by simp_all
  have new: "j_status j' = PENDING \<and> j_result j' = None"
    if "j' \<in> set (docs (snd (handle cfg e a st)))" "j_id j' \<notin> j_id ` set (docs st)" for j'
    using docs_handle [of cfg e a st]
  proof (elim disjE exE conjE)
    assume "docs (snd (handle cfg e a st)) = docs st"
    then show ?thesis using that by auto
  next
    fix p
    assume "docs (snd (handle cfg e a st)) = docs st @ [created e p]"
    then have "j' = created e p" using that by auto
    then show ?thesis by (simp add: created_def)
  next
    fix i r
    assume "docs (snd (handle cfg e a st)) =
      update_first i (apply_update e \<lparr>u_status = COMPLETED, u_result = r\<rparr>) (docs st)"
    then have "map j_id (docs (snd (handle cfg e a st))) = map j_id (docs st)"
      by (simp add: ids_update_first)
    then have "j_id ` set (docs (snd (handle cfg e a st))) = j_id ` set (docs st)"
      by (metis set_map)
    then show ?thesis using that by blast
  qed
  have old: "\<exists>j'\<in>set (docs (snd (handle cfg e a st))).
            j_id j' = j_id j \<and>
            (j_status j' = j_status j \<or> (j_status j = PENDING \<and> j_status j' = COMPLETED))"
    if j: "j \<in> set (docs st)" for j
    using docs_handle [of cfg e a st]
  proof (elim disjE exE conjE)
    assume "docs (snd (handle cfg e a st)) = docs st"
    then show ?thesis using j by auto
  next
    fix p
    assume "docs (snd (handle cfg e a st)) = docs st @ [created e p]"
    then show ?thesis using j by auto
  next
    fix i r
    let ?f = "apply_update e \<lparr>u_status = COMPLETED, u_result = r\<rparr>"
    assume d: "docs (snd (handle cfg e a st)) = update_first i ?f (docs st)"
    have ok: "job_ok j" using inv(1) j by blast
    from update_first_keeps [OF j, of i ?f]
    show ?thesis
    proof
      assume "j \<in> set (update_first i ?f (docs st))"
      then show ?thesis unfolding d by auto
    next
      assume "?f j \<in> set (update_first i ?f (docs st))"
      moreover have "j_status (?f j) = j_status j \<or> (j_status j = PENDING \<and> j_status (?f j) = COMPLETED)"
        using ok by (auto simp add: job_ok_def apply_update_def)
      ultimately show ?thesis unfolding d by (intro bexI [of _ "?f j"]) simp_all
    qed
  qed
  show ?thesis
    using new old inv' by (simp add: job_ok_def)
qed

theorem C1_witness:
  "reachable default_config sample_state
   \<and> docs (snd (handle default_config sample_env complete_arrival sample_state)) =
       [\<lparr>j_id = lit ''65a0'', j_prompt = lit ''summarize X'', j_status = COMPLETED,
         j_result = Some (lit ''first''), j_createdAt = 1000, j_updatedAt = 7000\<rparr>]
   \<and> docs (snd (handle default_config sample_env create_arrival sample_state)) =
       [sample_job,
        \<lparr>j_id = lit ''65a1'', j_prompt = lit ''summarize X'', j_status = PENDING,
         j_result = None, j_createdAt = 7000, j_updatedAt = 7000\<rparr>]
   \<and> distinct (map j_id (docs (snd (handle default_config sample_env create_arrival sample_state))))"
  using reachable_sample_state
    C1_status_and_result_lifecycle [OF reachable_sample_state, of sample_env complete_arrival]
    C1_status_and_result_lifecycle [OF reachable_sample_state, of sample_env create_arrival]
  by (simp add: complete_arrival_def create_arrival_def route_webhook_callback_def
      validateWebhookSecret_def SHARED_SECRET_def post_webhook_callback_def
      Job_findByIdAndUpdate_def apply_update_def post_jobs_def Job_create_def
      simulateN8nCallback_def Let_def default_config_def blank_request_def sample_state_def
      sample_job_def sample_env_def lit_def trim_def is_ws_def)

text \<open>
  The claim as stated fails on the sample job once completed: a second completion is
  accepted and the result, already set to one string, is set again to another.
\<close>

theorem C1_counterexample:
  "reachable default_config completed_state
   \<and> docs completed_state =
       [\<lparr>j_id = lit ''65a0'', j_prompt = lit ''summarize X'', j_status = COMPLETED,
         j_result = Some (lit ''first''), j_createdAt = 1000, j_updatedAt = 6000\<rparr>]
   \<and> docs (snd (handle default_config sample_env recomplete_arrival completed_state)) =
       [\<lparr>j_id = lit ''65a0'', j_prompt = lit ''summarize X'', j_status = COMPLETED,
         j_result = Some (lit ''second''), j_createdAt = 1000, j_updatedAt = 7000\<rparr>]
   \<and> lit ''first'' \<noteq> lit ''second''"
  using reachable_completed_state
  by (simp add: recomplete_arrival_def route_webhook_callback_def
      validateWebhookSecret_def SHARED_SECRET_def post_webhook_callback_def
      Job_findByIdAndUpdate_def apply_update_def Let_def default_config_def blank_request_def
      completed_state_def sample_job_def sample_env_def lit_def)

section \<open>Reads that race a completion\<close>

lemma untorn_error: "untorn (error_response c msg)"
  by (simp add: untorn_def error_response_def torn_def)

lemma untorn_full_view: "job_ok j \<Longrightarrow> \<not> torn (full_view j)"
  by (cases "j_result j") (auto simp add: torn_def full_view_def job_ok_def)

lemma until_await_refusal: "until_await cfg a = Inl r \<Longrightarrow> untorn r"
proof (cases a)
  case (PostJobs req)
  assume "until_await cfg a = Inl r"
  then show ?thesis using PostJobs
    by (cases "body_prompt req") (auto simp add: Let_def untorn_error split: if_splits)
next
  case (WebhookCallback req)
  assume "until_await cfg a = Inl r"
  then show ?thesis using WebhookCallback
    by (auto simp add: Let_def validateWebhookSecret_def untorn_error
        split: if_splits mw_result.splits option.splits)
next
  case (GetJob req)
  assume "until_await cfg a = Inl r"
  then show ?thesis using GetJob by simp
next
  case GetJobs
  assume "until_await cfg a = Inl r"
  then show ?thesis using GetJobs by simp
qed

lemma until_await_pending: "until_await cfg a = Inr p \<Longrightarrow> pending_ok p"
proof (cases a)
  case (PostJobs req)
  assume "until_await cfg a = Inr p"
  then show ?thesis using PostJobs
    by (cases "body_prompt req") (auto simp add: Let_def split: if_splits)
next
  case (WebhookCallback req)
  assume "until_await cfg a = Inr p"
  then show ?thesis using WebhookCallback
    by (auto simp add: Let_def validateWebhookSecret_def
        split: if_splits mw_result.splits option.splits)
next
  case (GetJob req)
  assume "until_await cfg a = Inr p"
  then show ?thesis using GetJob by auto
next
  case GetJobs
  assume "until_await cfg a = Inr p"
  then show ?thesis using GetJobs by auto
qed

lemma list_all_update_first:
  "list_all P ds \<Longrightarrow> (\<And>d. P (f d)) \<Longrightarrow> list_all P (update_first i f ds)"
  by (induction ds) auto

lemma find_list_all: "list_all P ds \<Longrightarrow> find Q ds = Some d \<Longrightarrow> P d"
  by (induction ds) (auto split: if_splits)

lemma list_all_newest_first: "list_all P (sort_newest_first ds) = list_all P ds"
  by (simp add: list_all_iff sort_newest_first_def)

lemma perform_ok:
  assumes "list_all job_ok (docs st)" and "pending_ok p" and "perform e p st = (rep, st')"
  shows "list_all job_ok (docs st') \<and> reply_ok rep"
proof (cases p)
  case (AwaitCreate q s)
  then show ?thesis using assms
    by (auto simp add: Job_create_def Let_def job_ok_def split: if_splits)
next
  case (AwaitFindByIdAndUpdate i u)
  then have c: "u_status u = COMPLETED" using assms(2) by simp
  have f: "job_ok (apply_update e u d)" for d
    using c by (simp add: job_ok_def apply_update_def)
  show ?thesis using assms AwaitFindByIdAndUpdate f
    by (auto simp add: Job_findByIdAndUpdate_def Let_def list_all_update_first
        split: if_splits option.splits)
next
  case (AwaitFindById i)
  then show ?thesis using assms
    by (cases "find (\<lambda>d. j_id d = i) (docs st)")
       (auto simp add: Job_findById_def Let_def split: if_splits dest: find_list_all)
next
  case AwaitFind
  then show ?thesis using assms
    by (auto simp add: Job_find_sort_def Let_def list_all_newest_first split: if_splits)
qed

lemma untorn_Obj: "untorn \<lparr>code = c, body = Obj v\<rparr> = (\<not> torn v)"
  by (simp add: untorn_def)

lemma untorn_Arr: "untorn \<lparr>code = c, body = Arr vs\<rparr> = list_all (\<lambda>v. \<not> torn v) vs"
  by (simp add: untorn_def)

lemma untorn_public_view:
  "\<not> torn [(''id'', i), (''prompt'', p), (''status'', JStatus PENDING), (''createdAt'', c)]"
  by (simp add: torn_def)

lemma untorn_updated_view:
  "job_ok j \<Longrightarrow>
   \<not> torn [(''id'', JStr (j_id j)), (''prompt'', JStr (j_prompt j)),
           (''status'', JStatus (j_status j)), (''result'', json_result (j_result j)),
           (''updatedAt'', JDate (j_updatedAt j))]"
  by (cases "j_result j") (auto simp add: torn_def job_ok_def)

lemma untorn_full_views: "list_all job_ok js \<Longrightarrow> list_all (\<lambda>v. \<not> torn v) (map full_view js)"
  by (induction js) (simp_all add: untorn_full_view)

lemma after_await_ok:
  assumes "reply_ok rep" and "after_await p rep st = (r, st')"
  shows "docs st' = docs st \<and> untorn r"
  using assms
  by (cases "(p, rep, st)" rule: after_await.cases)
     (auto simp add: untorn_error untorn_Obj untorn_Arr simulateN8nCallback_def
        untorn_public_view untorn_updated_view untorn_full_views untorn_full_view)

lemma list_all_remove1: "list_all P xs \<Longrightarrow> list_all P (remove1 x xs)"
  by (induction xs) auto

lemma list_all_member: "list_all P xs \<Longrightarrow> x \<in> set xs \<Longrightarrow> P x"
  by (simp add: list_all_iff)

lemma runs_ok: "runs cfg s \<Longrightarrow> system_ok s"
proof (induction rule: runs.induct)
  case runs_idle
  show ?case by (simp add: system_ok_def idle_def init_def)
next
  case (runs_refuse s a r)
  then show ?case by (simp add: system_ok_def until_await_refusal)
next
  case (runs_suspend s a p)
  then show ?case by (simp add: system_ok_def until_await_pending)
next
  case (runs_perform s a p e rep st')
  have "pending_ok p"
    using runs_perform.IH runs_perform.hyps(2) by (auto simp add: system_ok_def dest: list_all_member)
  then have "list_all job_ok (docs st') \<and> reply_ok rep"
    using runs_perform.IH runs_perform.hyps(3) by (intro perform_ok) (simp_all add: system_ok_def)
  then show ?case
    using runs_perform.IH by (simp add: system_ok_def list_all_remove1)
next
  case (runs_resume s a p rep r st')
  have "reply_ok rep"
    using runs_resume.IH runs_resume.hyps(2) by (auto simp add: system_ok_def dest: list_all_member)
  then have "docs st' = docs (store s) \<and> untorn r"
    using runs_resume.hyps(3) by (rule after_await_ok)
  then show ?case
    using runs_resume.IH by (simp add: system_ok_def list_all_remove1)
qed

text \<open>
  Claim C5. In every interleaving of requests, where a handler may be suspended on its
  storage call while other handlers' calls are performed and each call is one operation
  of the store, no answer carries a torn view: never status COMPLETED without a result
  string, never status PENDING with one. This holds for the answers of \<open>GET /jobs/:id\<close>
  and \<open>GET /jobs\<close> in particular.
\<close>

theorem C5_no_torn_view:
  assumes "runs cfg s" and "(a, r) \<in> set (answered s)" and "v \<in> set (views (body r))"
  shows "\<not> torn v"
proof -
  have "system_ok s" using assms(1) by (rule runs_ok)
  then have "untorn r"
    using assms(2) by (auto simp add: system_ok_def dest: list_all_member)
  then show ?thesis
    using assms(3) by (simp add: untorn_def list_all_iff)
qed

text \<open>
  A run with a race: the read's call is performed before the completion's call and the
  read resumes after it. The answer shows the job as it was before the completion.
\<close>

theorem C5_witness:
  "runs default_config raced
   \<and> answered raced = [(create_arrival, created_answer), (get_arrival, pending_answer)]
   \<and> map j_status (docs (store raced)) = [COMPLETED]
   \<and> views (body pending_answer) =
       [[(''id'', JStr (lit ''65a0'')), (''prompt'', JStr (lit ''summarize X'')),
         (''status'', JStatus PENDING), (''result'', JNull),
         (''createdAt'', JDate 1000), (''updatedAt'', JDate 1000)]]
   \<and> \<not> torn [(''id'', JStr (lit ''65a0'')), (''prompt'', JStr (lit ''summarize X'')),
              (''status'', JStatus PENDING), (''result'', JNull),
              (''createdAt'', JDate 1000), (''updatedAt'', JDate 1000)]"
proof -
  have a: "(get_arrival, pending_answer) \<in> set (answered raced)"
    by (simp add: raced_def)
  have v: "[(''id'', JStr (lit ''65a0'')), (''prompt'', JStr (lit ''summarize X'')),
            (''status'', JStatus PENDING), (''result'', JNull),
            (''createdAt'', JDate 1000), (''updatedAt'', JDate 1000)]
           \<in> set (views (body pending_answer))"
    by (simp add: pending_answer_def)
  show ?thesis
    using runs_raced C5_no_torn_view [OF runs_raced a v]
    by (simp add: raced_def pending_answer_def completed_state_def)
qed

end
